theory Spec2Isabelle
  imports Complex_Main
begin

section \<open>Python values and errors\<close>

text \<open>
  The display classes of \<^verbatim>\<open>ladybug_display/geometry2d/_base.py\<close> are dynamically typed:
  a setter receives any Python object. The objects that matter to the setters are
  collected in one datatype. Python floats are modelled as reals (no rounding, no NaN,
  no infinity), Python ints as \<open>int\<close>, text as \<open>string\<close>. The semantics is Python 3:
  \<open>str\<close> and \<open>bytes\<close> are different types and never compare equal.
\<close>

text \<open>
  Modelled from the spec: \<^verbatim>\<open>ladybug.color.Color\<close> is an external class. The spec fixes
  its content as four components R, G, B, A, with A = 255 when it is not given
  (opaque).
\<close>

datatype Color = Color (color_r: int) (color_g: int) (color_b: int) (color_a: int)

definition Color_rgb :: "int \<Rightarrow> int \<Rightarrow> int \<Rightarrow> Color" where
  \<comment> \<open>\<^verbatim>\<open>Color(r, g, b)\<close>: the call with the alpha argument left at its default\<close>
  "Color_rgb r g b = Color r g b 255"

datatype pyval =
    PNone
  | PInt int
  | PFloat real
  | PStr string
  | PBytes string
  | PColor Color
  | PDefault \<comment> \<open>the object \<^verbatim>\<open>ladybug_display.altnumber.default\<close>\<close>
  | PDict "(string \<times> pyval) list"

datatype pytype =
  NoneType | IntType | FloatType | StrType | BytesType | ColorType | DefaultType | DictType

fun py_type :: "pyval \<Rightarrow> pytype" where
  "py_type PNone = NoneType"
| "py_type (PInt _) = IntType"
| "py_type (PFloat _) = FloatType"
| "py_type (PStr _) = StrType"
| "py_type (PBytes _) = BytesType"
| "py_type (PColor _) = ColorType"
| "py_type PDefault = DefaultType"
| "py_type (PDict _) = DictType"

text \<open>
  An error message built by \<^verbatim>\<open>'...{}...'.format(a, b)\<close> is kept as the template and
  the arguments of the call; how Python prints an argument is not modelled.
\<close>

datatype fmt_arg =
    Value pyval        \<comment> \<open>an object, printed by \<^verbatim>\<open>str\<close>\<close>
  | TypeOf pytype      \<comment> \<open>\<^verbatim>\<open>type(value)\<close>\<close>
  | Keys "string list" \<comment> \<open>a tuple of names, such as \<^verbatim>\<open>LINE_TYPES\<close>\<close>
  | Label string       \<comment> \<open>a field name\<close>

datatype message = Format string "fmt_arg list"

fun format_args :: "message \<Rightarrow> fmt_arg list" where
  "format_args (Format template args) = args"

datatype error =
    ValueError message
  | AssertionError message
  | TypeError message
  | AttributeError pytype string \<comment> \<open>the type of the object, the attribute it lacks\<close>
  | IndexError
  | FormatError message \<comment> \<open>a dictionary that is not of the expected format\<close>

section \<open>Constants and helpers of the package that the base classes import\<close>

text \<open>
  Modelled from the spec: \<^verbatim>\<open>LINE_TYPES\<close> is defined in \<^verbatim>\<open>ladybug_display/_base.py\<close>,
  which is not among the sources. The spec and the docstring of \<^verbatim>\<open>_LineCurveBase2D\<close>
  give its members in this order.
\<close>

definition LINE_TYPES :: "string list" where
  "LINE_TYPES = [''Continuous'', ''Dashed'', ''Dotted'', ''DashDot'']"

text \<open>
  \<^verbatim>\<open>DISPLAY_MODES\<close> comes from the same missing module and the spec names only some of
  its members, so every definition that reads it takes it as the parameter \<open>modes\<close>.
\<close>

text \<open>
  \<^verbatim>\<open>str.lower()\<close>, on the ASCII letters. Every member of the enumerations is ASCII.
\<close>

definition lower_char :: "char \<Rightarrow> char" where
  "lower_char c =
     (let n = (of_char c :: nat) in if 65 \<le> n \<and> n \<le> 90 then char_of (n + 32) else c)"

definition lower :: "string \<Rightarrow> string" where
  "lower s = map lower_char s"

text \<open>
  The method call \<^verbatim>\<open>value.lower()\<close>: \<open>str\<close> and \<open>bytes\<close> have the method, the other
  types raise \<^verbatim>\<open>AttributeError\<close>.
\<close>

fun lower_method :: "pyval \<Rightarrow> error + pyval" where
  "lower_method (PStr s) = Inr (PStr (lower s))"
| "lower_method (PBytes s) = Inr (PBytes (lower s))"
| "lower_method v = Inl (AttributeError (py_type v) ''lower'')"

text \<open>
  Modelled from the spec: \<^verbatim>\<open>float_positive\<close> lives in \<^verbatim>\<open>ladybug_display/typing.py\<close>,
  which is not among the sources. The spec (4.1): it returns the value coerced to a
  floating-point number if it is strictly greater than zero, and fails with a
  ValueError-equivalent naming the offending field and value otherwise. The coercion is
  Python's \<^verbatim>\<open>float()\<close>: a number is converted, text is parsed by the interpreter (the
  parameter \<open>float_of_str\<close>, not modelled), any other object is a type error. Only the
  arguments of the messages are taken from the spec, not their wording.
\<close>

fun py_float :: "(string \<Rightarrow> real option) \<Rightarrow> pyval \<Rightarrow> real option" where
  "py_float float_of_str (PInt i) = Some (of_int i)"
| "py_float float_of_str (PFloat x) = Some x"
| "py_float float_of_str (PStr s) = float_of_str s"
| "py_float float_of_str (PBytes s) = float_of_str s"
| "py_float float_of_str v = None"

definition float_positive ::
  "(string \<Rightarrow> real option) \<Rightarrow> pyval \<Rightarrow> string \<Rightarrow> error + real" where
  "float_positive float_of_str value input_name =
     (case py_float float_of_str value of
        None \<Rightarrow> Inl (TypeError (Format ''Input {} must be a number. Got {}.''
                  [Label input_name, Value value]))
      | Some number \<Rightarrow>
          if 0 < number then Inr number
          else Inl (ValueError (Format ''Input {} must be greater than 0. Got {}.''
                  [Label input_name, Value value])))"

section \<open>The display classes\<close>

text \<open>
  Each class is a record; a subclass extends the record of its parent with its own
  slots. The geometry is a value of the external geometry library, of any type \<open>'g\<close>.
  Modelled from the spec: \<^verbatim>\<open>_DisplayBase\<close> (\<^verbatim>\<open>ladybug_display/_base.py\<close>) is not among
  the sources; it holds the geometry and the \<open>user_data\<close> mapping, which starts empty.
\<close>

datatype width = Default | Number real

record 'g DisplayBase2D =
  geometry :: 'g
  user_data :: "(string \<times> pyval) list"

record 'g SingleColorBase2D = "'g DisplayBase2D" +
  color :: Color

record 'g SingleColorModeBase2D = "'g SingleColorBase2D" +
  display_mode :: string

record 'g LineCurveBase2D = "'g SingleColorBase2D" +
  line_width :: width
  line_type :: string

text \<open>
  A method that may raise returns the error or the value, together with the object
  after the call. A property setter is the computation of the value to store (which may
  raise) followed by the one assignment to the backing slot.
\<close>

type_synonym ('w, 'a) py_method = "'w \<Rightarrow> (error + 'a) \<times> 'w"

subsection \<open>\<^verbatim>\<open>_SingleColorBase2D.color\<close>\<close>

definition color_value :: "pyval \<Rightarrow> error + Color" where
  "color_value value =
     (if value = PNone then Inr (Color_rgb 0 0 0)
      else (case value of
              PColor c \<Rightarrow> Inr c
            | _ \<Rightarrow> Inl (AssertionError
                (Format ''Expected Color for ladybug_display object color. Got {}.''
                   [TypeOf (py_type value)]))))"

definition color_setter :: "pyval \<Rightarrow> (('g, 'z) SingleColorBase2D_scheme, unit) py_method" where
  "color_setter value self =
     (case color_value value of
        Inl e \<Rightarrow> (Inl e, self)
      | Inr v \<Rightarrow> (Inr (), self\<lparr>color := v\<rparr>))"

subsection \<open>\<^verbatim>\<open>_SingleColorModeBase2D.display_mode\<close> and \<^verbatim>\<open>_LineCurveBase2D.line_type\<close>\<close>

text \<open>
  The \<^verbatim>\<open>for key in KEYS: if key.lower() == clean_input: value = key; break\<close> loop with
  its \<^verbatim>\<open>else\<close> branch: \<open>Some key\<close> is the key at which the loop breaks, \<open>None\<close> means
  the loop ran to its end, where the \<^verbatim>\<open>else\<close> branch raises. The comparison is between
  a \<open>str\<close> (the lowered key) and the lowered input, whatever its type.
\<close>

fun match_key :: "string list \<Rightarrow> pyval \<Rightarrow> string option" where
  "match_key [] clean_input = None"
| "match_key (key # keys) clean_input =
     (if PStr (lower key) = clean_input then Some key else match_key keys clean_input)"

definition newline :: string where
  "newline = [CHR 0x0A]"

definition display_mode_value :: "string list \<Rightarrow> pyval \<Rightarrow> error + string" where
  "display_mode_value modes value =
     (case lower_method value of
        Inl e \<Rightarrow> Inl e
      | Inr clean_input \<Rightarrow>
          (case match_key modes clean_input of
             Some key \<Rightarrow> Inr key
           | None \<Rightarrow> Inl (ValueError
               (Format (''display_mode {} is not recognized.'' @ newline @
                        ''Choose from the following:'' @ newline @ ''{}'')
                  [Value value, Keys modes]))))"

definition display_mode_setter ::
  "string list \<Rightarrow> pyval \<Rightarrow> (('g, 'z) SingleColorModeBase2D_scheme, unit) py_method" where
  "display_mode_setter modes value self =
     (case display_mode_value modes value of
        Inl e \<Rightarrow> (Inl e, self)
      | Inr v \<Rightarrow> (Inr (), self\<lparr>display_mode := v\<rparr>))"

definition line_type_value :: "pyval \<Rightarrow> error + string" where
  "line_type_value value =
     (case lower_method value of
        Inl e \<Rightarrow> Inl e
      | Inr clean_input \<Rightarrow>
          (case match_key LINE_TYPES clean_input of
             Some key \<Rightarrow> Inr key
           | None \<Rightarrow> Inl (ValueError
               (Format (''line_type {} is not recognized.'' @ newline @
                        ''Choose from the following:'' @ newline @ ''{}'')
                  [Value value, Keys LINE_TYPES]))))"

definition line_type_setter ::
  "pyval \<Rightarrow> (('g, 'z) LineCurveBase2D_scheme, unit) py_method" where
  "line_type_setter value self =
     (case line_type_value value of
        Inl e \<Rightarrow> (Inl e, self)
      | Inr v \<Rightarrow> (Inr (), self\<lparr>line_type := v\<rparr>))"

subsection \<open>\<^verbatim>\<open>_LineCurveBase2D.line_width\<close>\<close>

text \<open>
  \<^verbatim>\<open>value == default\<close>: the sentinel of \<^verbatim>\<open>ladybug_display.altnumber\<close> (not among the
  sources) is, by the spec, distinct from every number; only the sentinel equals it.
\<close>

definition line_width_value :: "(string \<Rightarrow> real option) \<Rightarrow> pyval \<Rightarrow> error + width" where
  "line_width_value float_of_str value =
     (if value = PDefault then Inr Default
      else (case float_positive float_of_str value ''line width'' of
              Inl e \<Rightarrow> Inl e
            | Inr number \<Rightarrow> Inr (Number number)))"

definition line_width_setter ::
  "(string \<Rightarrow> real option) \<Rightarrow> pyval \<Rightarrow> (('g, 'z) LineCurveBase2D_scheme, unit) py_method" where
  "line_width_setter float_of_str value self =
     (case line_width_value float_of_str value of
        Inl e \<Rightarrow> (Inl e, self)
      | Inr v \<Rightarrow> (Inr (), self\<lparr>line_width := v\<rparr>))"

subsection \<open>\<^verbatim>\<open>_transfer_attributes\<close>, one definition per class that overrides it\<close>

definition transfer_attributes_DisplayBase2D ::
  "('g, 'z) DisplayBase2D_scheme \<Rightarrow> ('g, 'z) DisplayBase2D_scheme
     \<Rightarrow> ('g, 'z) DisplayBase2D_scheme" where
  "transfer_attributes_DisplayBase2D self other_obj = self"

definition transfer_attributes_SingleColorBase2D ::
  "('g, 'z) SingleColorBase2D_scheme \<Rightarrow> ('g, 'z) SingleColorBase2D_scheme
     \<Rightarrow> ('g, 'z) SingleColorBase2D_scheme" where
  "transfer_attributes_SingleColorBase2D self other_obj = self\<lparr>color := color other_obj\<rparr>"

definition transfer_attributes_SingleColorModeBase2D ::
  "('g, 'z) SingleColorModeBase2D_scheme \<Rightarrow> ('g, 'z) SingleColorModeBase2D_scheme
     \<Rightarrow> ('g, 'z) SingleColorModeBase2D_scheme" where
  "transfer_attributes_SingleColorModeBase2D self other_obj =
     self\<lparr>color := color other_obj, display_mode := display_mode other_obj\<rparr>"

definition transfer_attributes_LineCurveBase2D ::
  "('g, 'z) LineCurveBase2D_scheme \<Rightarrow> ('g, 'z) LineCurveBase2D_scheme
     \<Rightarrow> ('g, 'z) LineCurveBase2D_scheme" where
  "transfer_attributes_LineCurveBase2D self other_obj =
     self\<lparr>color := color other_obj, line_width := line_width other_obj,
          line_type := line_type other_obj\<rparr>"

subsection \<open>The transforms of \<^verbatim>\<open>_DisplayBase2D\<close>\<close>

text \<open>
  The wrapped geometry belongs to the external geometry library. Its four methods are
  the parameter \<open>G\<close>; each returns a new geometry or raises. Points and vectors are
  values of any type \<open>'p\<close>; the origin of \<open>scale\<close> may be \<^verbatim>\<open>None\<close>.
\<close>

record ('g, 'p) geometry_methods =
  geo_move :: "'g \<Rightarrow> 'p \<Rightarrow> error + 'g"
  geo_rotate :: "'g \<Rightarrow> real \<Rightarrow> 'p \<Rightarrow> error + 'g"
  geo_reflect :: "'g \<Rightarrow> 'p \<Rightarrow> 'p \<Rightarrow> error + 'g"
  geo_scale :: "'g \<Rightarrow> real \<Rightarrow> 'p option \<Rightarrow> error + 'g"

definition radians :: "real \<Rightarrow> real" where
  \<comment> \<open>\<^verbatim>\<open>math.radians\<close>\<close>
  "radians angle = angle * pi / 180"

definition move ::
  "('g, 'p) geometry_methods \<Rightarrow> 'p \<Rightarrow> (('g, 'z) DisplayBase2D_scheme, unit) py_method" where
  "move G moving_vec self =
     (case geo_move G (geometry self) moving_vec of
        Inl e \<Rightarrow> (Inl e, self)
      | Inr g \<Rightarrow> (Inr (), self\<lparr>geometry := g\<rparr>))"

definition rotate_2D ::
  "('g, 'p) geometry_methods \<Rightarrow> real \<Rightarrow> 'p \<Rightarrow> (('g, 'z) DisplayBase2D_scheme, unit) py_method" where
  "rotate_2D G angle origin self =
     (case geo_rotate G (geometry self) (radians angle) origin of
        Inl e \<Rightarrow> (Inl e, self)
      | Inr g \<Rightarrow> (Inr (), self\<lparr>geometry := g\<rparr>))"

definition reflect ::
  "('g, 'p) geometry_methods \<Rightarrow> 'p \<Rightarrow> 'p \<Rightarrow> (('g, 'z) DisplayBase2D_scheme, unit) py_method" where
  "reflect G normal origin self =
     (case geo_reflect G (geometry self) normal origin of
        Inl e \<Rightarrow> (Inl e, self)
      | Inr g \<Rightarrow> (Inr (), self\<lparr>geometry := g\<rparr>))"

definition scale ::
  "('g, 'p) geometry_methods \<Rightarrow> real \<Rightarrow> 'p option
     \<Rightarrow> (('g, 'z) DisplayBase2D_scheme, unit) py_method" where
  "scale G factor origin self =
     (case geo_scale G (geometry self) factor origin of
        Inl e \<Rightarrow> (Inl e, self)
      | Inr g \<Rightarrow> (Inr (), self\<lparr>geometry := g\<rparr>))"

subsection \<open>Constructors\<close>

text \<open>
  \<^verbatim>\<open>__init__\<close> calls the parent's \<^verbatim>\<open>__init__\<close> and then its own setters in the order of
  the source. The first assignment to a slot of the new object is the extension of the
  parent's record by that slot.
\<close>

definition DisplayBase2D_init :: "'g \<Rightarrow> 'g DisplayBase2D" where
  "DisplayBase2D_init g = \<lparr>geometry = g, user_data = []\<rparr>"

definition SingleColorBase2D_init :: "'g \<Rightarrow> pyval \<Rightarrow> error + 'g SingleColorBase2D" where
  "SingleColorBase2D_init g color_arg =
     (case color_value color_arg of
        Inl e \<Rightarrow> Inl e
      | Inr c \<Rightarrow> Inr (DisplayBase2D.extend (DisplayBase2D_init g) (SingleColorBase2D.fields c)))"

definition SingleColorModeBase2D_init ::
  "string list \<Rightarrow> 'g \<Rightarrow> pyval \<Rightarrow> pyval \<Rightarrow> error + 'g SingleColorModeBase2D" where
  "SingleColorModeBase2D_init modes g color_arg display_mode_arg =
     (case SingleColorBase2D_init g color_arg of
        Inl e \<Rightarrow> Inl e
      | Inr base \<Rightarrow>
          (case display_mode_value modes display_mode_arg of
             Inl e \<Rightarrow> Inl e
           | Inr m \<Rightarrow> Inr (SingleColorBase2D.extend base (SingleColorModeBase2D.fields m))))"

definition LineCurveBase2D_init ::
  "(string \<Rightarrow> real option) \<Rightarrow> 'g \<Rightarrow> pyval \<Rightarrow> pyval \<Rightarrow> pyval \<Rightarrow> error + 'g LineCurveBase2D" where
  "LineCurveBase2D_init float_of_str g color_arg line_width_arg line_type_arg =
     (case SingleColorBase2D_init g color_arg of
        Inl e \<Rightarrow> Inl e
      | Inr base \<Rightarrow>
          (case line_width_value float_of_str line_width_arg of
             Inl e \<Rightarrow> Inl e
           | Inr w \<Rightarrow>
               (case line_type_value line_type_arg of
                  Inl e \<Rightarrow> Inl e
                | Inr t \<Rightarrow> Inr (SingleColorBase2D.extend base (LineCurveBase2D.fields w t)))))"

section \<open>The 3D wrappers and their dictionaries\<close>

text \<open>
  Modelled from the spec: \<^verbatim>\<open>DisplayCylinder\<close> and \<^verbatim>\<open>DisplayPolyline3D\<close>
  (\<^verbatim>\<open>ladybug_display/geometry3d\<close>) and their 3D base classes are not among the sources;
  only their tests are. By the spec (4.3) a cylinder wrapper has a colour and a display
  mode and a line-like wrapper has a colour, a line width and a line type, with the
  setters and defaults of section 4.2, which are those of the 2D base classes above. The
  geometry has the expected type by typing. Unset arguments are passed explicitly:
  \<open>PNone\<close> for the colour, \<open>PStr ''Surface''\<close>, \<open>PDefault\<close> and \<open>PStr ''Continuous''\<close>.
\<close>

definition DisplayCylinder ::
  "string list \<Rightarrow> 'g \<Rightarrow> pyval \<Rightarrow> pyval \<Rightarrow> error + 'g SingleColorModeBase2D" where
  "DisplayCylinder modes g color_arg display_mode_arg =
     SingleColorModeBase2D_init modes g color_arg display_mode_arg"

definition DisplayPolyline3D ::
  "(string \<Rightarrow> real option) \<Rightarrow> 'g \<Rightarrow> pyval \<Rightarrow> pyval \<Rightarrow> pyval \<Rightarrow> error + 'g LineCurveBase2D" where
  "DisplayPolyline3D float_of_str g color_arg line_width_arg line_type_arg =
     LineCurveBase2D_init float_of_str g color_arg line_width_arg line_type_arg"

text \<open>
  Modelled from the spec: \<^verbatim>\<open>to_dict\<close> and \<^verbatim>\<open>from_dict\<close> of the two wrappers (4.4).
  \<^verbatim>\<open>to_dict\<close> gives a mapping with the type tag, the geometry serialised by the geometry
  library (the parameter \<open>geo_to_dict\<close>), the colour as its RGBA components, the line
  width as a number or, for the sentinel, as a tagged value, the enumerated attribute as
  its string, and \<open>user_data\<close> if it is not empty. \<^verbatim>\<open>from_dict\<close> checks the type tag,
  rebuilds the geometry with the library's deserialiser (the parameter
  \<open>geo_from_dict\<close>) and rebuilds each attribute through the constructor, that is through
  the setters. An attribute key that is absent leaves the constructor's default. A
  dictionary is an association list in the order \<^verbatim>\<open>to_dict\<close> fills it; equal lists are
  equal dictionaries.
\<close>

definition color_to_dict :: "Color \<Rightarrow> pyval" where
  "color_to_dict c =
     PDict [(''r'', PInt (color_r c)), (''g'', PInt (color_g c)),
            (''b'', PInt (color_b c)), (''a'', PInt (color_a c))]"

definition malformed :: "string \<Rightarrow> error" where
  "malformed what = FormatError (Format ''Expected {} dictionary.'' [Label what])"

fun color_from_dict :: "pyval \<Rightarrow> error + Color" where
  "color_from_dict (PDict d) =
     (case (map_of d ''r'', map_of d ''g'', map_of d ''b'', map_of d ''a'') of
        (Some (PInt r), Some (PInt g), Some (PInt b), Some (PInt a)) \<Rightarrow> Inr (Color r g b a)
      | _ \<Rightarrow> Inl (malformed ''Color''))"
| "color_from_dict v = Inl (malformed ''Color'')"

definition default_to_dict :: pyval where
  "default_to_dict = PDict [(''type'', PStr ''Default'')]"

fun width_to_dict :: "width \<Rightarrow> pyval" where
  "width_to_dict Default = default_to_dict"
| "width_to_dict (Number x) = PFloat x"

definition user_data_items :: "(string \<times> pyval) list \<Rightarrow> (string \<times> pyval) list" where
  "user_data_items ud = (if ud = [] then [] else [(''user_data'', PDict ud)])"

definition DisplayCylinder_to_dict ::
  "('g \<Rightarrow> pyval) \<Rightarrow> 'g SingleColorModeBase2D \<Rightarrow> pyval" where
  "DisplayCylinder_to_dict geo_to_dict self =
     PDict ([(''type'', PStr ''DisplayCylinder''),
             (''geometry'', geo_to_dict (geometry self)),
             (''color'', color_to_dict (color self)),
             (''display_mode'', PStr (display_mode self))]
            @ user_data_items (user_data self))"

definition DisplayPolyline3D_to_dict ::
  "('g \<Rightarrow> pyval) \<Rightarrow> 'g LineCurveBase2D \<Rightarrow> pyval" where
  "DisplayPolyline3D_to_dict geo_to_dict self =
     PDict ([(''type'', PStr ''DisplayPolyline3D''),
             (''geometry'', geo_to_dict (geometry self)),
             (''color'', color_to_dict (color self)),
             (''line_width'', width_to_dict (line_width self)),
             (''line_type'', PStr (line_type self))]
            @ user_data_items (user_data self))"

definition color_arg_of :: "(string \<times> pyval) list \<Rightarrow> error + pyval" where
  "color_arg_of d =
     (case map_of d ''color'' of
        None \<Rightarrow> Inr PNone
      | Some cd \<Rightarrow> (case color_from_dict cd of Inl e \<Rightarrow> Inl e | Inr c \<Rightarrow> Inr (PColor c)))"

definition line_width_arg_of :: "(string \<times> pyval) list \<Rightarrow> pyval" where
  "line_width_arg_of d =
     (case map_of d ''line_width'' of
        None \<Rightarrow> PDefault
      | Some v \<Rightarrow> if v = default_to_dict then PDefault else v)"

definition with_user_data ::
  "(string \<times> pyval) list \<Rightarrow> ('g, 'z) DisplayBase2D_scheme
     \<Rightarrow> error + ('g, 'z) DisplayBase2D_scheme" where
  "with_user_data d obj =
     (case map_of d ''user_data'' of
        None \<Rightarrow> Inr obj
      | Some (PDict ud) \<Rightarrow> Inr (obj\<lparr>user_data := ud\<rparr>)
      | Some _ \<Rightarrow> Inl (malformed ''user_data''))"

fun DisplayCylinder_from_dict ::
  "string list \<Rightarrow> (pyval \<Rightarrow> error + 'g) \<Rightarrow> pyval \<Rightarrow> error + 'g SingleColorModeBase2D" where
  "DisplayCylinder_from_dict modes geo_from_dict (PDict d) =
     (if map_of d ''type'' \<noteq> Some (PStr ''DisplayCylinder'')
      then Inl (malformed ''DisplayCylinder'')
      else (case map_of d ''geometry'' of
              None \<Rightarrow> Inl (malformed ''DisplayCylinder'')
            | Some gd \<Rightarrow>
                (case geo_from_dict gd of
                   Inl e \<Rightarrow> Inl e
                 | Inr g \<Rightarrow>
                     (case color_arg_of d of
                        Inl e \<Rightarrow> Inl e
                      | Inr c \<Rightarrow>
                          (case DisplayCylinder modes g c
                                  (case map_of d ''display_mode'' of
                                     None \<Rightarrow> PStr ''Surface'' | Some v \<Rightarrow> v) of
                             Inl e \<Rightarrow> Inl e
                           | Inr obj \<Rightarrow> with_user_data d obj)))))"
| "DisplayCylinder_from_dict modes geo_from_dict v = Inl (malformed ''DisplayCylinder'')"

fun DisplayPolyline3D_from_dict ::
  "(string \<Rightarrow> real option) \<Rightarrow> (pyval \<Rightarrow> error + 'g) \<Rightarrow> pyval
     \<Rightarrow> error + 'g LineCurveBase2D" where
  "DisplayPolyline3D_from_dict float_of_str geo_from_dict (PDict d) =
     (if map_of d ''type'' \<noteq> Some (PStr ''DisplayPolyline3D'')
      then Inl (malformed ''DisplayPolyline3D'')
      else (case map_of d ''geometry'' of
              None \<Rightarrow> Inl (malformed ''DisplayPolyline3D'')
            | Some gd \<Rightarrow>
                (case geo_from_dict gd of
                   Inl e \<Rightarrow> Inl e
                 | Inr g \<Rightarrow>
                     (case color_arg_of d of
                        Inl e \<Rightarrow> Inl e
                      | Inr c \<Rightarrow>
                          (case DisplayPolyline3D float_of_str g c (line_width_arg_of d)
                                  (case map_of d ''line_type'' of
                                     None \<Rightarrow> PStr ''Continuous'' | Some v \<Rightarrow> v) of
                             Inl e \<Rightarrow> Inl e
                           | Inr obj \<Rightarrow> with_user_data d obj)))))"
| "DisplayPolyline3D_from_dict float_of_str geo_from_dict v =
     Inl (malformed ''DisplayPolyline3D'')"

text \<open>
  The valid instances: the objects the constructors and setters can produce. The line
  width is the sentinel or a positive number, the enumerated attribute is a member of its
  enumeration.
\<close>

fun valid_width :: "width \<Rightarrow> bool" where
  "valid_width Default = True"
| "valid_width (Number x) = (0 < x)"

section \<open>The polyline of the example scenario\<close>

text \<open>
  Modelled from the spec: \<^verbatim>\<open>Point3D\<close>, \<^verbatim>\<open>LineSegment3D\<close> and \<^verbatim>\<open>Polyline3D\<close> belong to the
  external geometry library, and the accessors of \<^verbatim>\<open>DisplayPolyline3D\<close> that pass them
  through are not among the sources. The spec's scenario and the test
  \<^verbatim>\<open>test_display_polyline3d_init\<close> fix what they mean: a polyline is the path through its
  vertices, its segments join consecutive vertices, its length is the sum of their
  Euclidean lengths, and \<open>p1\<close> and \<open>p2\<close> are its first and last vertex. A point
  built from two coordinates has \<open>z = 0\<close>.
\<close>

datatype Point3D = Point3D (pt_x: real) (pt_y: real) (pt_z: real)

definition Point3D_xy :: "real \<Rightarrow> real \<Rightarrow> Point3D" where
  "Point3D_xy x y = Point3D x y 0"

datatype LineSegment3D = LineSegment3D (seg_p1: Point3D) (seg_p2: Point3D)

definition segment_length :: "LineSegment3D \<Rightarrow> real" where
  "segment_length s =
     sqrt ((pt_x (seg_p2 s) - pt_x (seg_p1 s))\<^sup>2 + (pt_y (seg_p2 s) - pt_y (seg_p1 s))\<^sup>2
           + (pt_z (seg_p2 s) - pt_z (seg_p1 s))\<^sup>2)"

datatype Polyline3D = Polyline3D (vertices: "Point3D list")

fun join_vertices :: "Point3D list \<Rightarrow> LineSegment3D list" where
  "join_vertices (a # b # rest) = LineSegment3D a b # join_vertices (b # rest)"
| "join_vertices _ = []"

definition polyline_segments :: "Polyline3D \<Rightarrow> LineSegment3D list" where
  "polyline_segments pl = join_vertices (vertices pl)"

definition polyline_length :: "Polyline3D \<Rightarrow> real" where
  "polyline_length pl = sum_list (map segment_length (polyline_segments pl))"

definition polyline_p1 :: "Polyline3D \<Rightarrow> error + Point3D" where
  "polyline_p1 pl = (case vertices pl of [] \<Rightarrow> Inl IndexError | v # _ \<Rightarrow> Inr v)"

definition polyline_p2 :: "Polyline3D \<Rightarrow> error + Point3D" where
  "polyline_p2 pl = (if vertices pl = [] then Inl IndexError else Inr (last (vertices pl)))"

definition DisplayPolyline3D_segments :: "Polyline3D LineCurveBase2D \<Rightarrow> LineSegment3D list" where
  "DisplayPolyline3D_segments self = polyline_segments (geometry self)"

definition DisplayPolyline3D_length :: "Polyline3D LineCurveBase2D \<Rightarrow> real" where
  "DisplayPolyline3D_length self = polyline_length (geometry self)"

definition DisplayPolyline3D_p1 :: "Polyline3D LineCurveBase2D \<Rightarrow> error + Point3D" where
  "DisplayPolyline3D_p1 self = polyline_p1 (geometry self)"

definition DisplayPolyline3D_p2 :: "Polyline3D LineCurveBase2D \<Rightarrow> error + Point3D" where
  "DisplayPolyline3D_p2 self = polyline_p2 (geometry self)"

section \<open>The extension hook\<close>

text \<open>
  \<^verbatim>\<open>_extend_ladybug.py\<close> assigns one attribute on each of two classes of the external
  \<^verbatim>\<open>ladybug\<close> package. The namespace of a class is a map from attribute names to
  objects; the two imported functions are the parameters.
\<close>

datatype ladybug_class = Compass | Sunpath

type_synonym 'v class_attributes = "ladybug_class \<Rightarrow> string \<rightharpoonup> 'v"

definition extend_ladybug :: "'v \<Rightarrow> 'v \<Rightarrow> 'v class_attributes \<Rightarrow> 'v class_attributes" where
  "extend_ladybug compass_to_vis_set sunpath_to_vis_set classes =
     (let classes1 = classes(Compass := (classes Compass)(''to_vis_set'' \<mapsto> compass_to_vis_set))
      in classes1(Sunpath := (classes1 Sunpath)(''to_vis_set'' \<mapsto> sunpath_to_vis_set)))"

section \<open>Example objects\<close>

text \<open>
  Concrete wrappers with the grey colour of the tests, on which the theorems below are
  instantiated. The geometry plays no part in the attribute setters and is the unit
  value here.
\<close>

definition example_pline :: "unit LineCurveBase2D" where
  "example_pline = \<lparr>geometry = (), user_data = [], color = Color 100 100 100 255,
     line_width = Default, line_type = ''Continuous''\<rparr>"

definition example_cyl :: "unit SingleColorModeBase2D" where
  "example_cyl = \<lparr>geometry = (), user_data = [], color = Color 100 100 100 255,
     display_mode = ''Surface''\<rparr>"

definition example_point_methods :: "(real \<times> real, real \<times> real) geometry_methods" where
  "example_point_methods =
     \<lparr>geo_move = (\<lambda>(x, y) (dx, dy). Inr (x + dx, y + dy)),
      geo_rotate = (\<lambda>(x, y) a (ox, oy).
         Inr (ox + (x - ox) * cos a - (y - oy) * sin a, oy + (x - ox) * sin a + (y - oy) * cos a)),
      geo_reflect = (\<lambda>(x, y) (nx, ny) (ox, oy).
         Inr (x - 2 * ((x - ox) * nx + (y - oy) * ny) * nx,
              y - 2 * ((x - ox) * nx + (y - oy) * ny) * ny)),
      geo_scale = (\<lambda>(x, y) f origin.
         case origin of None \<Rightarrow> Inr (f * x, f * y)
         | Some (ox, oy) \<Rightarrow> Inr (ox + f * (x - ox), oy + f * (y - oy)))\<rparr>"

definition example_point :: "(real \<times> real) LineCurveBase2D" where
  "example_point = \<lparr>geometry = (1, 0), user_data = [(''id'', PInt 7)],
     color = Color 100 100 100 255, line_width = Number 2, line_type = ''Dashed''\<rparr>"

definition example_classes :: "string class_attributes" where
  "example_classes =
     (\<lambda>cls. case cls of
        Compass \<Rightarrow> [''radius'' \<mapsto> ''Compass.radius'', ''to_vis_set'' \<mapsto> ''stale'']
      | Sunpath \<Rightarrow> [''latitude'' \<mapsto> ''Sunpath.latitude''])"

text \<open>
  A stand-in for a geometry of the external library with its own dictionary form: a
  point of the plane.
\<close>

definition point_to_dict :: "real \<times> real \<Rightarrow> pyval" where
  "point_to_dict p = PDict [(''type'', PStr ''Point2D''), (''x'', PFloat (fst p)), (''y'', PFloat (snd p))]"

fun point_from_dict :: "pyval \<Rightarrow> error + real \<times> real" where
  "point_from_dict (PDict d) =
     (case (map_of d ''x'', map_of d ''y'') of
        (Some (PFloat x), Some (PFloat y)) \<Rightarrow> Inr (x, y)
      | _ \<Rightarrow> Inl (malformed ''Point2D''))"
| "point_from_dict v = Inl (malformed ''Point2D'')"

definition example_disc :: "(real \<times> real) SingleColorModeBase2D" where
  "example_disc = \<lparr>geometry = (2, 0), user_data = [], color = Color 100 100 100 255,
     display_mode = ''Surface''\<rparr>"

definition example_modes :: "string list" where
  "example_modes = [''Surface'', ''SurfaceWithEdges'', ''Wireframe'']"

section \<open>Theorems\<close>

subsection \<open>Matching an input against an enumeration\<close>

lemma lower_LINE_TYPES:
  "map lower LINE_TYPES = [''continuous'', ''dashed'', ''dotted'', ''dashdot'']"
  by code_simp

lemma distinct_lower_LINE_TYPES: "distinct (map lower LINE_TYPES)"
  by (simp add: lower_LINE_TYPES)

lemma match_key_None_iff:
  "match_key keys (PStr c) = None \<longleftrightarrow> (\<forall>k\<in>set keys. lower k \<noteq> c)"
  by (induction keys) auto

lemma match_key_first:
  "distinct (map lower keys) \<Longrightarrow> k \<in> set keys \<Longrightarrow> match_key keys (PStr (lower k)) = Some k"
  by (induction keys) auto

lemma match_key_not_str:
  "py_type c \<noteq> StrType \<Longrightarrow> match_key keys c = None"
  by (induction keys) auto

lemma line_type_value_match:
  assumes "k \<in> set LINE_TYPES" and "lower k = lower s"
  shows "line_type_value (PStr s) = Inr k"
proof -
  have "match_key LINE_TYPES (PStr (lower k)) = Some k"
    using assms(1) by (rule match_key_first [OF distinct_lower_LINE_TYPES])
  then show ?thesis
    using assms(2) by (simp add: line_type_value_def)
qed

lemma line_type_value_no_match:
  assumes "\<forall>k\<in>set LINE_TYPES. lower k \<noteq> lower s"
  shows "\<exists>msg. line_type_value (PStr s) = Inl (ValueError msg)
           \<and> Keys LINE_TYPES \<in> set (format_args msg)"
proof -
  have "match_key LINE_TYPES (PStr (lower s)) = None"
    using assms by (simp only: match_key_None_iff)
  then show ?thesis
    by (simp add: line_type_value_def)
qed

lemma display_mode_value_match:
  assumes "distinct (map lower modes)" and "k \<in> set modes" and "lower k = lower s"
  shows "display_mode_value modes (PStr s) = Inr k"
proof -
  have "match_key modes (PStr (lower k)) = Some k"
    using assms(1,2) by (rule match_key_first)
  then show ?thesis
    using assms(3) by (simp add: display_mode_value_def)
qed

lemma display_mode_value_no_match:
  assumes "\<forall>k\<in>set modes. lower k \<noteq> lower s"
  shows "\<exists>msg. display_mode_value modes (PStr s) = Inl (ValueError msg)
           \<and> Keys modes \<in> set (format_args msg)"
proof -
  have "match_key modes (PStr (lower s)) = None"
    using assms by (simp only: match_key_None_iff)
  then show ?thesis
    by (simp add: display_mode_value_def)
qed

lemma lower_examples:
  "lower ''DASHED'' = lower ''Dashed''" "lower ''wireFRAME'' = lower ''Wireframe''"
  "map lower [''Surface'', ''SurfaceWithEdges'', ''Wireframe''] = [''surface'', ''surfacewithedges'', ''wireframe'']"
  "lower ''zigzag'' = ''zigzag''"
  by code_simp+

subsection \<open>The colour and the enumerations\<close>

text \<open>
  C5. For a single-color display object, setting \<open>color\<close> to \<^verbatim>\<open>None\<close> stores the
  concrete colour R=0, G=0, B=0, A=255. Setting it to a value that is neither
  \<^verbatim>\<open>None\<close> nor a \<open>Color\<close> fails with an error whose message names the type received
  (the \<^verbatim>\<open>assert isinstance\<close> of the setter), and the stored colour stays as it was:
  the value is not coerced.
\<close>

theorem color_setter_none_or_mismatch:
  "color_setter PNone self = (Inr (), self\<lparr>color := Color 0 0 0 255\<rparr>)
   \<and> (value \<noteq> PNone \<and> py_type value \<noteq> ColorType \<longrightarrow>
        (\<exists>msg. color_setter value self = (Inl (AssertionError msg), self)
               \<and> TypeOf (py_type value) \<in> set (format_args msg)))"
  by (cases "value") (simp_all add: color_setter_def color_value_def Color_rgb_def)

theorem color_setter_none_or_mismatch_witness:
  "color_setter PNone example_pline = (Inr (), example_pline\<lparr>color := Color 0 0 0 255\<rparr>)
   \<and> PInt 3 \<noteq> PNone \<and> py_type (PInt 3) \<noteq> ColorType
   \<and> (\<exists>msg. color_setter (PInt 3) example_pline = (Inl (AssertionError msg), example_pline)
          \<and> TypeOf IntType \<in> set (format_args msg))"
  using color_setter_none_or_mismatch [of example_pline "PInt 3"] by simp

text \<open>
  C2. For every string given to the \<open>line_type\<close> or \<open>display_mode\<close> setter: if it
  equals a member of the enumeration when both are lowered, the stored value becomes that
  member in its canonical casing (for \<open>display_mode\<close>, whose enumeration is a parameter,
  provided no two members have the same lowered form); if it equals none, the setter
  raises a \<^verbatim>\<open>ValueError\<close> whose message lists the enumeration, and the object is
  unchanged.
\<close>

theorem enum_setters_normalize_or_raise:
  "(k \<in> set LINE_TYPES \<and> lower k = lower s \<longrightarrow>
      line_type_setter (PStr s) pline = (Inr (), pline\<lparr>line_type := k\<rparr>))
   \<and> ((\<forall>k\<in>set LINE_TYPES. lower k \<noteq> lower s) \<longrightarrow>
      (\<exists>msg. line_type_setter (PStr s) pline = (Inl (ValueError msg), pline)
             \<and> Keys LINE_TYPES \<in> set (format_args msg)))
   \<and> (distinct (map lower modes) \<and> m \<in> set modes \<and> lower m = lower s \<longrightarrow>
      display_mode_setter modes (PStr s) cyl = (Inr (), cyl\<lparr>display_mode := m\<rparr>))
   \<and> ((\<forall>m\<in>set modes. lower m \<noteq> lower s) \<longrightarrow>
      (\<exists>msg. display_mode_setter modes (PStr s) cyl = (Inl (ValueError msg), cyl)
             \<and> Keys modes \<in> set (format_args msg)))"
proof (intro conjI impI)
  assume "k \<in> set LINE_TYPES \<and> lower k = lower s"
  then show "line_type_setter (PStr s) pline = (Inr (), pline\<lparr>line_type := k\<rparr>)"
    by (auto simp: line_type_setter_def line_type_value_match)
next
  assume "\<forall>k\<in>set LINE_TYPES. lower k \<noteq> lower s"
  from line_type_value_no_match [OF this]
  show "\<exists>msg. line_type_setter (PStr s) pline = (Inl (ValueError msg), pline)
             \<and> Keys LINE_TYPES \<in> set (format_args msg)"
    by (auto simp: line_type_setter_def)
next
  assume "distinct (map lower modes) \<and> m \<in> set modes \<and> lower m = lower s"
  then show "display_mode_setter modes (PStr s) cyl = (Inr (), cyl\<lparr>display_mode := m\<rparr>)"
    by (auto simp: display_mode_setter_def display_mode_value_match)
next
  assume "\<forall>m\<in>set modes. lower m \<noteq> lower s"
  from display_mode_value_no_match [OF this]
  show "\<exists>msg. display_mode_setter modes (PStr s) cyl = (Inl (ValueError msg), cyl)
             \<and> Keys modes \<in> set (format_args msg)"
    by (auto simp: display_mode_setter_def)
qed

theorem enum_setters_normalize_or_raise_witness:
  "line_type_setter (PStr ''DASHED'') example_pline
     = (Inr (), example_pline\<lparr>line_type := ''Dashed''\<rparr>)
   \<and> (\<exists>msg. line_type_setter (PStr ''zigzag'') example_pline
               = (Inl (ValueError msg), example_pline)
             \<and> Keys LINE_TYPES \<in> set (format_args msg))
   \<and> display_mode_setter [''Surface'', ''SurfaceWithEdges'', ''Wireframe'']
        (PStr ''wireFRAME'') example_cyl
     = (Inr (), example_cyl\<lparr>display_mode := ''Wireframe''\<rparr>)
   \<and> (\<exists>msg. display_mode_setter [''Surface'', ''SurfaceWithEdges'', ''Wireframe'']
               (PStr ''zigzag'') example_cyl
               = (Inl (ValueError msg), example_cyl)
             \<and> Keys [''Surface'', ''SurfaceWithEdges'', ''Wireframe''] \<in> set (format_args msg))"
proof -
  have a: "''Dashed'' \<in> set LINE_TYPES \<and> lower ''Dashed'' = lower ''DASHED''"
    by (simp add: LINE_TYPES_def lower_examples)
  have b: "\<forall>k\<in>set LINE_TYPES. lower k \<noteq> lower ''zigzag''"
    using lower_LINE_TYPES by (simp add: lower_examples LINE_TYPES_def)
  have c: "distinct (map lower [''Surface'', ''SurfaceWithEdges'', ''Wireframe''])
      \<and> ''Wireframe'' \<in> set [''Surface'', ''SurfaceWithEdges'', ''Wireframe'']
      \<and> lower ''Wireframe'' = lower ''wireFRAME''"
    using lower_examples(3) by (simp add: lower_examples(2))
  have d: "\<forall>m\<in>set [''Surface'', ''SurfaceWithEdges'', ''Wireframe'']. lower m \<noteq> lower ''zigzag''"
    using lower_examples(3) by (simp add: lower_examples(4))
  note t1 = enum_setters_normalize_or_raise [where k = "''Dashed''" and s = "''DASHED''"
      and pline = example_pline]
  note t2 = enum_setters_normalize_or_raise [where s = "''zigzag''"
      and pline = example_pline and modes = "[''Surface'', ''SurfaceWithEdges'', ''Wireframe'']"
      and cyl = example_cyl]
  note t3 = enum_setters_normalize_or_raise [where s = "''wireFRAME''"
      and modes = "[''Surface'', ''SurfaceWithEdges'', ''Wireframe'']"
      and m = "''Wireframe''" and cyl = example_cyl]
  have 1: "line_type_setter (PStr ''DASHED'') example_pline
     = (Inr (), example_pline\<lparr>line_type := ''Dashed''\<rparr>)"
    using t1 a by blast
  have 2: "\<exists>msg. line_type_setter (PStr ''zigzag'') example_pline
               = (Inl (ValueError msg), example_pline)
             \<and> Keys LINE_TYPES \<in> set (format_args msg)"
    using t2 b by blast
  have 3: "display_mode_setter [''Surface'', ''SurfaceWithEdges'', ''Wireframe'']
        (PStr ''wireFRAME'') example_cyl
     = (Inr (), example_cyl\<lparr>display_mode := ''Wireframe''\<rparr>)"
    using t3 c by blast
  have 4: "\<exists>msg. display_mode_setter [''Surface'', ''SurfaceWithEdges'', ''Wireframe'']
               (PStr ''zigzag'') example_cyl
               = (Inl (ValueError msg), example_cyl)
             \<and> Keys [''Surface'', ''SurfaceWithEdges'', ''Wireframe''] \<in> set (format_args msg)"
    using t2 d by blast
  show ?thesis
    using 1 2 3 4 by (intro conjI)
qed

subsection \<open>Copying the attributes of another object\<close>

text \<open>
  C3. \<^verbatim>\<open>_transfer_attributes\<close> of each class does what the transfer of its parent does
  and copies its own attributes as well, so that no attribute is dropped: after the call
  every display attribute of the target, at its own level and at every level above,
  equals that of the source (colour and display mode for \<^verbatim>\<open>_SingleColorModeBase2D\<close>;
  colour, line width and line type for \<^verbatim>\<open>_LineCurveBase2D\<close>). The source repeats the
  parent's assignment in each override; the effect is that of calling the parent.
\<close>

theorem transfer_attributes_complete:
  "transfer_attributes_SingleColorBase2D a a' = (transfer_attributes_DisplayBase2D a a')\<lparr>color := color a'\<rparr>
   \<and> color (transfer_attributes_SingleColorBase2D a a') = color a'
   \<and> transfer_attributes_SingleColorModeBase2D b b'
       = (transfer_attributes_SingleColorBase2D b b')\<lparr>display_mode := display_mode b'\<rparr>
   \<and> color (transfer_attributes_SingleColorModeBase2D b b') = color b'
   \<and> display_mode (transfer_attributes_SingleColorModeBase2D b b') = display_mode b'
   \<and> transfer_attributes_LineCurveBase2D c c'
       = (transfer_attributes_SingleColorBase2D c c')\<lparr>line_width := line_width c', line_type := line_type c'\<rparr>
   \<and> color (transfer_attributes_LineCurveBase2D c c') = color c'
   \<and> line_width (transfer_attributes_LineCurveBase2D c c') = line_width c'
   \<and> line_type (transfer_attributes_LineCurveBase2D c c') = line_type c'"
  by (simp add: transfer_attributes_DisplayBase2D_def transfer_attributes_SingleColorBase2D_def
      transfer_attributes_SingleColorModeBase2D_def transfer_attributes_LineCurveBase2D_def)

subsection \<open>The transforms: what they leave alone\<close>

lemma move_frame:
  "(snd (move G v self))\<lparr>geometry := geometry self\<rparr> = self"
  "user_data (snd (move G v self)) = user_data self"
  "color (snd (move G v cyl)) = color cyl \<and> display_mode (snd (move G v cyl)) = display_mode cyl"
  "color (snd (move G v pline)) = color pline \<and> line_width (snd (move G v pline)) = line_width pline
   \<and> line_type (snd (move G v pline)) = line_type pline"
  by (simp_all add: move_def split: sum.split)

lemma rotate_frame:
  "(snd (rotate_2D G angle origin self))\<lparr>geometry := geometry self\<rparr> = self"
  "user_data (snd (rotate_2D G angle origin self)) = user_data self"
  "color (snd (rotate_2D G angle origin cyl)) = color cyl
   \<and> display_mode (snd (rotate_2D G angle origin cyl)) = display_mode cyl"
  "color (snd (rotate_2D G angle origin pline)) = color pline
   \<and> line_width (snd (rotate_2D G angle origin pline)) = line_width pline
   \<and> line_type (snd (rotate_2D G angle origin pline)) = line_type pline"
  by (simp_all add: rotate_2D_def split: sum.split)

lemma reflect_frame:
  "(snd (reflect G normal origin self))\<lparr>geometry := geometry self\<rparr> = self"
  "user_data (snd (reflect G normal origin self)) = user_data self"
  "color (snd (reflect G normal origin cyl)) = color cyl
   \<and> display_mode (snd (reflect G normal origin cyl)) = display_mode cyl"
  "color (snd (reflect G normal origin pline)) = color pline
   \<and> line_width (snd (reflect G normal origin pline)) = line_width pline
   \<and> line_type (snd (reflect G normal origin pline)) = line_type pline"
  by (simp_all add: reflect_def split: sum.split)

lemma scale_frame:
  "(snd (scale G factor origin' self))\<lparr>geometry := geometry self\<rparr> = self"
  "user_data (snd (scale G factor origin' self)) = user_data self"
  "color (snd (scale G factor origin' cyl)) = color cyl
   \<and> display_mode (snd (scale G factor origin' cyl)) = display_mode cyl"
  "color (snd (scale G factor origin' pline)) = color pline
   \<and> line_width (snd (scale G factor origin' pline)) = line_width pline
   \<and> line_type (snd (scale G factor origin' pline)) = line_type pline"
  by (simp_all add: scale_def split: sum.split)

lemma transforms_delegate:
  "geo_move G (geometry self) v = Inr g \<Longrightarrow> move G v self = (Inr (), self\<lparr>geometry := g\<rparr>)"
  "geo_rotate G (geometry self) (radians angle) origin = Inr g \<Longrightarrow>
     rotate_2D G angle origin self = (Inr (), self\<lparr>geometry := g\<rparr>)"
  "geo_reflect G (geometry self) normal origin = Inr g \<Longrightarrow>
     reflect G normal origin self = (Inr (), self\<lparr>geometry := g\<rparr>)"
  "geo_scale G (geometry self) factor origin' = Inr g \<Longrightarrow>
     scale G factor origin' self = (Inr (), self\<lparr>geometry := g\<rparr>)"
  by (simp_all add: move_def rotate_2D_def reflect_def scale_def)

lemma transforms_propagate:
  "geo_move G (geometry self) v = Inl e \<Longrightarrow> move G v self = (Inl e, self)"
  "geo_rotate G (geometry self) (radians angle) origin = Inl e \<Longrightarrow>
     rotate_2D G angle origin self = (Inl e, self)"
  "geo_reflect G (geometry self) normal origin = Inl e \<Longrightarrow>
     reflect G normal origin self = (Inl e, self)"
  "geo_scale G (geometry self) factor origin' = Inl e \<Longrightarrow>
     scale G factor origin' self = (Inl e, self)"
  by (simp_all add: move_def rotate_2D_def reflect_def scale_def)


text \<open>
  C4. For every display object and every call of \<open>move\<close>, \<open>rotate\<close>, \<open>reflect\<close> or
  \<open>scale\<close>: the stored geometry is replaced by what the same method of the wrapped
  geometry returns for the same arguments (\<open>rotate\<close> passes its angle converted from
  degrees to radians), and every other field (colour, line width, line type, display
  mode, user data) is as before the call.
\<close>

theorem transforms_replace_geometry_only:
  "(geo_move G (geometry self) v = Inr g1 \<longrightarrow> move G v self = (Inr (), self\<lparr>geometry := g1\<rparr>))
   \<and> (geo_rotate G (geometry self) (radians angle) origin = Inr g2 \<longrightarrow>
        rotate_2D G angle origin self = (Inr (), self\<lparr>geometry := g2\<rparr>))
   \<and> (geo_reflect G (geometry self) normal origin = Inr g3 \<longrightarrow>
        reflect G normal origin self = (Inr (), self\<lparr>geometry := g3\<rparr>))
   \<and> (geo_scale G (geometry self) factor origin' = Inr g4 \<longrightarrow>
        scale G factor origin' self = (Inr (), self\<lparr>geometry := g4\<rparr>))
   \<and> (snd (move G v self))\<lparr>geometry := geometry self\<rparr> = self
   \<and> (snd (rotate_2D G angle origin self))\<lparr>geometry := geometry self\<rparr> = self
   \<and> (snd (reflect G normal origin self))\<lparr>geometry := geometry self\<rparr> = self
   \<and> (snd (scale G factor origin' self))\<lparr>geometry := geometry self\<rparr> = self
   \<and> user_data (snd (move G v self)) = user_data self
   \<and> user_data (snd (rotate_2D G angle origin self)) = user_data self
   \<and> user_data (snd (reflect G normal origin self)) = user_data self
   \<and> user_data (snd (scale G factor origin' self)) = user_data self
   \<and> (color (snd (move G v cyl)) = color cyl
        \<and> display_mode (snd (move G v cyl)) = display_mode cyl)
   \<and> (color (snd (rotate_2D G angle origin cyl)) = color cyl
        \<and> display_mode (snd (rotate_2D G angle origin cyl)) = display_mode cyl)
   \<and> (color (snd (reflect G normal origin cyl)) = color cyl
        \<and> display_mode (snd (reflect G normal origin cyl)) = display_mode cyl)
   \<and> (color (snd (scale G factor origin' cyl)) = color cyl
        \<and> display_mode (snd (scale G factor origin' cyl)) = display_mode cyl)
   \<and> (color (snd (move G v pline)) = color pline
        \<and> line_width (snd (move G v pline)) = line_width pline
        \<and> line_type (snd (move G v pline)) = line_type pline)
   \<and> (color (snd (rotate_2D G angle origin pline)) = color pline
        \<and> line_width (snd (rotate_2D G angle origin pline)) = line_width pline
        \<and> line_type (snd (rotate_2D G angle origin pline)) = line_type pline)
   \<and> (color (snd (reflect G normal origin pline)) = color pline
        \<and> line_width (snd (reflect G normal origin pline)) = line_width pline
        \<and> line_type (snd (reflect G normal origin pline)) = line_type pline)
   \<and> (color (snd (scale G factor origin' pline)) = color pline
        \<and> line_width (snd (scale G factor origin' pline)) = line_width pline
        \<and> line_type (snd (scale G factor origin' pline)) = line_type pline)"
  apply (intro conjI impI)
  apply (erule transforms_delegate)+
  apply (rule move_frame rotate_frame reflect_frame scale_frame
      move_frame(3) [THEN conjunct1] move_frame(3) [THEN conjunct2]
      rotate_frame(3) [THEN conjunct1] rotate_frame(3) [THEN conjunct2]
      reflect_frame(3) [THEN conjunct1] reflect_frame(3) [THEN conjunct2]
      scale_frame(3) [THEN conjunct1] scale_frame(3) [THEN conjunct2]
      move_frame(4) [THEN conjunct1] move_frame(4) [THEN conjunct2, THEN conjunct1]
      move_frame(4) [THEN conjunct2, THEN conjunct2]
      rotate_frame(4) [THEN conjunct1] rotate_frame(4) [THEN conjunct2, THEN conjunct1]
      rotate_frame(4) [THEN conjunct2, THEN conjunct2]
      reflect_frame(4) [THEN conjunct1] reflect_frame(4) [THEN conjunct2, THEN conjunct1]
      reflect_frame(4) [THEN conjunct2, THEN conjunct2]
      scale_frame(4) [THEN conjunct1] scale_frame(4) [THEN conjunct2, THEN conjunct1]
      scale_frame(4) [THEN conjunct2, THEN conjunct2])+
  done

lemma example_point_calls:
  "geo_move example_point_methods (geometry example_point) (2, 3) = Inr (3, 3)"
  "geo_rotate example_point_methods (geometry example_point) (radians 180) (0, 0) = Inr (-1, 0)"
  "geo_reflect example_point_methods (geometry example_point) (1, 0) (0, 0) = Inr (-1, 0)"
  "geo_scale example_point_methods (geometry example_point) 2 None = Inr (2, 0)"
  by (simp_all add: example_point_methods_def example_point_def radians_def)

theorem transforms_replace_geometry_only_witness:
  "move example_point_methods (2, 3) example_point
     = (Inr (), example_point\<lparr>geometry := (3, 3)\<rparr>)
   \<and> rotate_2D example_point_methods 180 (0, 0) example_point
     = (Inr (), example_point\<lparr>geometry := (-1, 0)\<rparr>)
   \<and> reflect example_point_methods (1, 0) (0, 0) example_point
     = (Inr (), example_point\<lparr>geometry := (-1, 0)\<rparr>)
   \<and> scale example_point_methods 2 None example_point
     = (Inr (), example_point\<lparr>geometry := (2, 0)\<rparr>)"
  using transforms_replace_geometry_only [where G = example_point_methods
      and self = example_point and v = "(2, 3)" and ?g1.0 = "(3, 3)"
      and angle = 180 and origin = "(0, 0)" and ?g2.0 = "(-1, 0)"
      and normal = "(1, 0)" and ?g3.0 = "(-1, 0)"
      and factor = 2 and origin' = None and ?g4.0 = "(2, 0)"]
    example_point_calls
  by blast

subsection \<open>The line width\<close>

lemma float_positive_number:
  "0 < x \<Longrightarrow> float_positive f (PFloat x) label = Inr x"
  "0 < i \<Longrightarrow> float_positive f (PInt i) label = Inr (of_int i)"
  by (simp_all add: float_positive_def)

lemma float_positive_rejects:
  "x \<le> 0 \<Longrightarrow> \<exists>msg. float_positive f (PFloat x) label = Inl (ValueError msg)
                  \<and> Label label \<in> set (format_args msg)"
  "i \<le> 0 \<Longrightarrow> \<exists>msg. float_positive f (PInt i) label = Inl (ValueError msg)
                  \<and> Label label \<in> set (format_args msg)"
  by (simp_all add: float_positive_def)

text \<open>
  C6. For every input to the \<open>line_width\<close> setter: the "use default" sentinel is stored
  as it is; any other value goes through \<open>float_positive\<close>, whose result decides the
  call. \<open>float_positive\<close> accepts every number strictly greater than 0, which is then
  stored as a float, and rejects 0 and every negative number with a value error whose
  message names the field, \<open>line width\<close> for the setter; a rejected value is not stored.
\<close>

theorem line_width_setter_default_or_positive:
  "line_width_setter f PDefault self = (Inr (), self\<lparr>line_width := Default\<rparr>)
   \<and> (v \<noteq> PDefault \<longrightarrow>
        line_width_setter f v self =
          (case float_positive f v ''line width'' of
             Inl e \<Rightarrow> (Inl e, self)
           | Inr number \<Rightarrow> (Inr (), self\<lparr>line_width := Number number\<rparr>)))
   \<and> (0 < x \<longrightarrow> float_positive f (PFloat x) label = Inr x
                 \<and> line_width_setter f (PFloat x) self = (Inr (), self\<lparr>line_width := Number x\<rparr>))
   \<and> (0 < i \<longrightarrow> float_positive f (PInt i) label = Inr (of_int i)
                 \<and> line_width_setter f (PInt i) self
                     = (Inr (), self\<lparr>line_width := Number (of_int i)\<rparr>))
   \<and> (x \<le> 0 \<longrightarrow>
        (\<exists>msg. float_positive f (PFloat x) label = Inl (ValueError msg)
               \<and> Label label \<in> set (format_args msg))
        \<and> (\<exists>msg. line_width_setter f (PFloat x) self = (Inl (ValueError msg), self)
               \<and> Label ''line width'' \<in> set (format_args msg)))
   \<and> (i \<le> 0 \<longrightarrow>
        (\<exists>msg. float_positive f (PInt i) label = Inl (ValueError msg)
               \<and> Label label \<in> set (format_args msg))
        \<and> (\<exists>msg. line_width_setter f (PInt i) self = (Inl (ValueError msg), self)
               \<and> Label ''line width'' \<in> set (format_args msg)))"
proof (intro conjI impI)
  show "line_width_setter f PDefault self = (Inr (), self\<lparr>line_width := Default\<rparr>)"
    by (simp add: line_width_setter_def line_width_value_def)
next
  assume "v \<noteq> PDefault"
  then show "line_width_setter f v self =
          (case float_positive f v ''line width'' of
             Inl e \<Rightarrow> (Inl e, self)
           | Inr number \<Rightarrow> (Inr (), self\<lparr>line_width := Number number\<rparr>))"
    by (simp add: line_width_setter_def line_width_value_def split: sum.split)
next
  assume "0 < x"
  then show "float_positive f (PFloat x) label = Inr x"
    by (rule float_positive_number)
next
  assume "0 < x"
  then show "line_width_setter f (PFloat x) self = (Inr (), self\<lparr>line_width := Number x\<rparr>)"
    by (simp add: line_width_setter_def line_width_value_def float_positive_number)
next
  assume "0 < i"
  then show "float_positive f (PInt i) label = Inr (of_int i)"
    by (rule float_positive_number)
next
  assume "0 < i"
  then show "line_width_setter f (PInt i) self = (Inr (), self\<lparr>line_width := Number (of_int i)\<rparr>)"
    by (simp add: line_width_setter_def line_width_value_def float_positive_number)
next
  assume "x \<le> 0"
  then show "\<exists>msg. float_positive f (PFloat x) label = Inl (ValueError msg)
               \<and> Label label \<in> set (format_args msg)"
    by (rule float_positive_rejects)
next
  assume "x \<le> 0"
  from float_positive_rejects(1) [OF this, of f "''line width''"]
  show "\<exists>msg. line_width_setter f (PFloat x) self = (Inl (ValueError msg), self)
               \<and> Label ''line width'' \<in> set (format_args msg)"
    by (auto simp: line_width_setter_def line_width_value_def)
next
  assume "i \<le> 0"
  then show "\<exists>msg. float_positive f (PInt i) label = Inl (ValueError msg)
               \<and> Label label \<in> set (format_args msg)"
    by (rule float_positive_rejects)
next
  assume "i \<le> 0"
  from float_positive_rejects(2) [OF this, of f "''line width''"]
  show "\<exists>msg. line_width_setter f (PInt i) self = (Inl (ValueError msg), self)
               \<and> Label ''line width'' \<in> set (format_args msg)"
    by (auto simp: line_width_setter_def line_width_value_def)
qed

theorem line_width_setter_default_or_positive_witness:
  "line_width_setter (\<lambda>s. None) (PInt 2) example_pline
     = (Inr (), example_pline\<lparr>line_width := Number 2\<rparr>)
   \<and> line_width_setter (\<lambda>s. None) (PFloat (1/2)) example_pline
     = (Inr (), example_pline\<lparr>line_width := Number (1/2)\<rparr>)
   \<and> (\<exists>msg. line_width_setter (\<lambda>s. None) (PInt 0) example_pline
               = (Inl (ValueError msg), example_pline)
          \<and> Label ''line width'' \<in> set (format_args msg))
   \<and> (\<exists>msg. line_width_setter (\<lambda>s. None) (PFloat (-3)) example_pline
               = (Inl (ValueError msg), example_pline)
          \<and> Label ''line width'' \<in> set (format_args msg))
   \<and> line_width_setter (\<lambda>s. None) PNone example_pline =
          (case float_positive (\<lambda>s. None) PNone ''line width'' of
             Inl e \<Rightarrow> (Inl e, example_pline)
           | Inr number \<Rightarrow> (Inr (), example_pline\<lparr>line_width := Number number\<rparr>))"
proof -
  note t = line_width_setter_default_or_positive [where f = "\<lambda>s. None" and self = example_pline
      and label = "''line width''"]
  have 1: "line_width_setter (\<lambda>s. None) (PInt 2) example_pline
     = (Inr (), example_pline\<lparr>line_width := Number 2\<rparr>)"
    using t [where i = 2 and x = 1 and v = PDefault] by simp
  have 2: "line_width_setter (\<lambda>s. None) (PFloat (1/2)) example_pline
     = (Inr (), example_pline\<lparr>line_width := Number (1/2)\<rparr>)"
    using t [where i = 1 and x = "1/2" and v = PDefault] by simp
  have 3: "\<exists>msg. line_width_setter (\<lambda>s. None) (PInt 0) example_pline
               = (Inl (ValueError msg), example_pline)
          \<and> Label ''line width'' \<in> set (format_args msg)"
    using t [where i = 0 and x = 1 and v = PDefault] by simp
  have 4: "\<exists>msg. line_width_setter (\<lambda>s. None) (PFloat (-3)) example_pline
               = (Inl (ValueError msg), example_pline)
          \<and> Label ''line width'' \<in> set (format_args msg)"
    using t [where i = 1 and x = "-3" and v = PDefault] by simp
  have 5: "line_width_setter (\<lambda>s. None) PNone example_pline =
          (case float_positive (\<lambda>s. None) PNone ''line width'' of
             Inl e \<Rightarrow> (Inl e, example_pline)
           | Inr number \<Rightarrow> (Inr (), example_pline\<lparr>line_width := Number number\<rparr>))"
    using t [where i = 1 and x = 1 and v = PNone] by simp
  show ?thesis
    using 1 2 3 4 5 by (intro conjI)
qed

subsection \<open>A setter that raises stores nothing\<close>

text \<open>
  C9. Every attribute setter (\<open>color\<close>, \<open>display_mode\<close>, \<open>line_width\<close>, \<open>line_type\<close>)
  validates before it assigns: a call that raises leaves the object, the attribute
  concerned and every other field, exactly as it was.
\<close>

theorem setters_atomic:
  "(fst (color_setter v1 a) = Inl e1 \<longrightarrow> snd (color_setter v1 a) = a)
   \<and> (fst (display_mode_setter modes v2 b) = Inl e2 \<longrightarrow> snd (display_mode_setter modes v2 b) = b)
   \<and> (fst (line_width_setter f v3 c) = Inl e3 \<longrightarrow> snd (line_width_setter f v3 c) = c)
   \<and> (fst (line_type_setter v4 c) = Inl e4 \<longrightarrow> snd (line_type_setter v4 c) = c)"
  by (simp add: color_setter_def display_mode_setter_def line_width_setter_def
      line_type_setter_def split: sum.split)


theorem setters_atomic_witness:
  "fst (color_setter (PInt 3) example_pline)
     = Inl (AssertionError (Format ''Expected Color for ladybug_display object color. Got {}.''
         [TypeOf IntType]))
   \<and> snd (color_setter (PInt 3) example_pline) = example_pline
   \<and> fst (display_mode_setter [] (PStr ''Surface'') example_cyl)
     = Inl (ValueError (Format (''display_mode {} is not recognized.'' @ newline @
                        ''Choose from the following:'' @ newline @ ''{}'')
         [Value (PStr ''Surface''), Keys []]))
   \<and> snd (display_mode_setter [] (PStr ''Surface'') example_cyl) = example_cyl
   \<and> fst (line_width_setter (\<lambda>s. None) (PInt 0) example_pline)
     = Inl (ValueError (Format ''Input {} must be greater than 0. Got {}.''
         [Label ''line width'', Value (PInt 0)]))
   \<and> snd (line_width_setter (\<lambda>s. None) (PInt 0) example_pline) = example_pline
   \<and> fst (line_type_setter PNone example_pline) = Inl (AttributeError NoneType ''lower'')
   \<and> snd (line_type_setter PNone example_pline) = example_pline"
proof -
  have 1: "fst (color_setter (PInt 3) example_pline)
     = Inl (AssertionError (Format ''Expected Color for ladybug_display object color. Got {}.''
         [TypeOf IntType]))"
    by (simp add: color_setter_def color_value_def)
  have 2: "fst (display_mode_setter [] (PStr ''Surface'') example_cyl)
     = Inl (ValueError (Format (''display_mode {} is not recognized.'' @ newline @
                        ''Choose from the following:'' @ newline @ ''{}'')
         [Value (PStr ''Surface''), Keys []]))"
    by (simp add: display_mode_setter_def display_mode_value_def)
  have 3: "fst (line_width_setter (\<lambda>s. None) (PInt 0) example_pline)
     = Inl (ValueError (Format ''Input {} must be greater than 0. Got {}.''
         [Label ''line width'', Value (PInt 0)]))"
    by (simp add: line_width_setter_def line_width_value_def float_positive_def)
  have 4: "fst (line_type_setter PNone example_pline) = Inl (AttributeError NoneType ''lower'')"
    by (simp add: line_type_setter_def line_type_value_def)
  show ?thesis
    using 1 2 3 4
      setters_atomic [where ?v1.0 = "PInt 3" and a = example_pline and modes = "[]"
      and ?v2.0 = "PStr ''Surface''" and b = example_cyl and f = "\<lambda>s. None"
      and ?v3.0 = "PInt 0" and c = example_pline and ?v4.0 = PNone]
    by blast
qed

subsection \<open>Which error an enumeration setter raises\<close>

lemma enum_value_no_lower:
  "py_type v \<noteq> StrType \<Longrightarrow> py_type v \<noteq> BytesType \<Longrightarrow>
     line_type_value v = Inl (AttributeError (py_type v) ''lower'')
     \<and> display_mode_value modes v = Inl (AttributeError (py_type v) ''lower'')"
  by (cases v) (simp_all add: line_type_value_def display_mode_value_def)

lemma enum_value_bytes:
  "\<exists>msg. line_type_value (PBytes b) = Inl (ValueError msg)"
  "\<exists>msg. display_mode_value modes (PBytes b) = Inl (ValueError msg)"
  by (simp_all add: line_type_value_def display_mode_value_def match_key_not_str)

lemma enum_value_str:
  "(\<exists>msg. line_type_value (PStr s) = Inl (ValueError msg))
     \<longleftrightarrow> (\<forall>k\<in>set LINE_TYPES. lower k \<noteq> lower s)"
  "(\<exists>msg. display_mode_value modes (PStr s) = Inl (ValueError msg))
     \<longleftrightarrow> (\<forall>k\<in>set modes. lower k \<noteq> lower s)"
  using match_key_None_iff [of LINE_TYPES "lower s"] match_key_None_iff [of modes "lower s"]
  by (auto simp: line_type_value_def display_mode_value_def split: option.splits)

lemma setter_fst:
  "fst (line_type_setter v pline) = Inl e \<longleftrightarrow> line_type_value v = Inl e"
  "fst (display_mode_setter modes v cyl) = Inl e \<longleftrightarrow> display_mode_value modes v = Inl e"
  by (simp_all add: line_type_setter_def display_mode_setter_def split: sum.split)

text \<open>
  C10, as claimed: the \<open>line_type\<close> and \<open>display_mode\<close> setters raise their
  \<^verbatim>\<open>ValueError\<close> only for a string, and every input that is not a string fails earlier,
  on \<^verbatim>\<open>.lower()\<close>, with another error. This fails for a \<open>bytes\<close> object, which is not
  a string but has the method \<^verbatim>\<open>lower\<close>: it reaches the loop, equals no key, and gets
  the \<^verbatim>\<open>ValueError\<close> that lists the valid set.
\<close>

theorem bytes_input_raises_value_error:
  "py_type (PBytes ''dashed'') \<noteq> StrType
   \<and> line_type_setter (PBytes ''dashed'') example_pline
     = (Inl (ValueError (Format (''line_type {} is not recognized.'' @ newline @
                        ''Choose from the following:'' @ newline @ ''{}'')
         [Value (PBytes ''dashed''), Keys LINE_TYPES])), example_pline)"
  by (simp add: line_type_setter_def line_type_value_def match_key_not_str)

text \<open>
  C10, amended. The \<open>line_type\<close> and \<open>display_mode\<close> setters raise their \<^verbatim>\<open>ValueError\<close>
  if and only if the input has a \<^verbatim>\<open>lower\<close> method and its lowered form equals the
  lowered form of no member: a string that matches no member, or any \<open>bytes\<close> object.
  Every input of a type without that method (\<^verbatim>\<open>None\<close>, a number, a colour, the default
  sentinel, a dictionary) fails earlier, on \<^verbatim>\<open>.lower()\<close>, with an
  \<^verbatim>\<open>AttributeError\<close>, and nothing is stored.
\<close>

theorem enum_setters_error_kinds:
  "((\<exists>msg. fst (line_type_setter v pline) = Inl (ValueError msg)) \<longleftrightarrow>
      (\<exists>s. (v = PStr s \<and> (\<forall>k\<in>set LINE_TYPES. lower k \<noteq> lower s)) \<or> v = PBytes s))
   \<and> ((\<exists>msg. fst (display_mode_setter modes v cyl) = Inl (ValueError msg)) \<longleftrightarrow>
      (\<exists>s. (v = PStr s \<and> (\<forall>k\<in>set modes. lower k \<noteq> lower s)) \<or> v = PBytes s))
   \<and> (py_type v \<noteq> StrType \<and> py_type v \<noteq> BytesType \<longrightarrow>
        line_type_setter v pline = (Inl (AttributeError (py_type v) ''lower''), pline)
        \<and> display_mode_setter modes v cyl = (Inl (AttributeError (py_type v) ''lower''), cyl))"
proof -
  have a: "(\<exists>msg. line_type_value v = Inl (ValueError msg)) \<longleftrightarrow>
      (\<exists>s. (v = PStr s \<and> (\<forall>k\<in>set LINE_TYPES. lower k \<noteq> lower s)) \<or> v = PBytes s)"
  proof (cases v)
    case (PStr s)
    then show ?thesis using enum_value_str(1) [of s] by simp
  next
    case (PBytes b)
    then show ?thesis using enum_value_bytes(1) [of b] by simp
  qed (simp_all add: line_type_value_def)
  have b: "(\<exists>msg. display_mode_value modes v = Inl (ValueError msg)) \<longleftrightarrow>
      (\<exists>s. (v = PStr s \<and> (\<forall>k\<in>set modes. lower k \<noteq> lower s)) \<or> v = PBytes s)"
  proof (cases v)
    case (PStr s)
    then show ?thesis using enum_value_str(2) [of modes s] by simp
  next
    case (PBytes b)
    then show ?thesis using enum_value_bytes(2) [of modes b] by simp
  qed (simp_all add: display_mode_value_def)
  have c: "py_type v \<noteq> StrType \<and> py_type v \<noteq> BytesType \<longrightarrow>
        line_type_setter v pline = (Inl (AttributeError (py_type v) ''lower''), pline)
        \<and> display_mode_setter modes v cyl = (Inl (AttributeError (py_type v) ''lower''), cyl)"
    using enum_value_no_lower [of v modes]
    by (simp add: line_type_setter_def display_mode_setter_def)
  show ?thesis
    using a b c by (simp only: setter_fst) 
qed

theorem enum_setters_error_kinds_witness:
  "(\<exists>msg. fst (line_type_setter (PStr ''zigzag'') example_pline) = Inl (ValueError msg))
   \<and> (\<exists>msg. fst (display_mode_setter [''Surface''] (PBytes ''surface'') example_cyl)
              = Inl (ValueError msg))
   \<and> line_type_setter (PInt 1) example_pline
       = (Inl (AttributeError IntType ''lower''), example_pline)
   \<and> display_mode_setter [''Surface''] PNone example_cyl
       = (Inl (AttributeError NoneType ''lower''), example_cyl)"
proof -
  have z: "\<forall>k\<in>set LINE_TYPES. lower k \<noteq> lower ''zigzag''"
    using lower_LINE_TYPES by (simp add: lower_examples LINE_TYPES_def)
  have 1: "\<exists>msg. fst (line_type_setter (PStr ''zigzag'') example_pline) = Inl (ValueError msg)"
    using enum_setters_error_kinds [where v = "PStr ''zigzag''" and pline = example_pline
        and cyl = example_cyl and modes = "[''Surface'']"] z
    by blast
  have 2: "\<exists>msg. fst (display_mode_setter [''Surface''] (PBytes ''surface'') example_cyl)
              = Inl (ValueError msg)"
    using enum_setters_error_kinds [where v = "PBytes ''surface''" and cyl = example_cyl
        and modes = "[''Surface'']" and pline = example_pline]
    by blast
  have 3: "line_type_setter (PInt 1) example_pline
       = (Inl (AttributeError IntType ''lower''), example_pline)"
    using enum_setters_error_kinds [where v = "PInt 1" and pline = example_pline
        and cyl = example_cyl and modes = "[''Surface'']"]
    by simp
  have 4: "display_mode_setter [''Surface''] PNone example_cyl
       = (Inl (AttributeError NoneType ''lower''), example_cyl)"
    using enum_setters_error_kinds [where v = PNone and cyl = example_cyl
        and modes = "[''Surface'']" and pline = example_pline]
    by simp
  show ?thesis
    using 1 2 3 4 by (intro conjI)
qed

subsection \<open>The attributes the extension module attaches\<close>

text \<open>
  C8. After the extension module is loaded, the class \<open>Compass\<close> has an attribute
  \<open>to_vis_set\<close> equal to the function \<open>compass_to_vis_set\<close>, the class \<open>Sunpath\<close> has an
  attribute \<open>to_vis_set\<close> equal to the function \<open>sunpath_to_vis_set\<close>, and no other
  attribute of either class is modified.
\<close>

theorem extend_ladybug_attaches:
  "extend_ladybug compass_to_vis_set sunpath_to_vis_set classes Compass ''to_vis_set''
     = Some compass_to_vis_set
   \<and> extend_ladybug compass_to_vis_set sunpath_to_vis_set classes Sunpath ''to_vis_set''
     = Some sunpath_to_vis_set
   \<and> (name \<noteq> ''to_vis_set'' \<longrightarrow>
        extend_ladybug compass_to_vis_set sunpath_to_vis_set classes cls name
          = classes cls name)"
  by (simp add: extend_ladybug_def Let_def)

theorem extend_ladybug_attaches_witness:
  "extend_ladybug ''compass_to_vis_set'' ''sunpath_to_vis_set'' example_classes Compass
       ''to_vis_set'' = Some ''compass_to_vis_set''
   \<and> extend_ladybug ''compass_to_vis_set'' ''sunpath_to_vis_set'' example_classes Sunpath
       ''to_vis_set'' = Some ''sunpath_to_vis_set''
   \<and> extend_ladybug ''compass_to_vis_set'' ''sunpath_to_vis_set'' example_classes Compass
       ''radius'' = Some ''Compass.radius''
   \<and> extend_ladybug ''compass_to_vis_set'' ''sunpath_to_vis_set'' example_classes Sunpath
       ''radius'' = None"
  using extend_ladybug_attaches [where compass_to_vis_set = "''compass_to_vis_set''"
      and sunpath_to_vis_set = "''sunpath_to_vis_set''" and classes = example_classes
      and name = "''radius''" and cls = Compass]
    extend_ladybug_attaches [where compass_to_vis_set = "''compass_to_vis_set''"
      and sunpath_to_vis_set = "''sunpath_to_vis_set''" and classes = example_classes
      and name = "''radius''" and cls = Sunpath]
  by (simp add: example_classes_def)

subsection \<open>Dictionaries\<close>

lemma color_dict_round_trip: "color_from_dict (color_to_dict c) = Inr c"
  by (simp add: color_to_dict_def)

lemma color_arg_of_to_dict:
  "map_of d ''color'' = Some (color_to_dict c) \<Longrightarrow> color_arg_of d = Inr (PColor c)"
  by (simp add: color_arg_of_def color_dict_round_trip)

lemma line_width_value_stored:
  "valid_width w \<Longrightarrow>
     line_width_value f (if width_to_dict w = default_to_dict then PDefault else width_to_dict w)
       = Inr w"
  by (cases w) (simp_all add: line_width_value_def float_positive_def default_to_dict_def)

lemma line_type_value_member: "t \<in> set LINE_TYPES \<Longrightarrow> line_type_value (PStr t) = Inr t"
  by (rule line_type_value_match) simp_all

lemma display_mode_value_member:
  "distinct (map lower modes) \<Longrightarrow> m \<in> set modes \<Longrightarrow> display_mode_value modes (PStr m) = Inr m"
  by (rule display_mode_value_match) simp_all

lemma DisplayPolyline3D_stored:
  assumes "line_width_value f lw = Inr w" and "line_type_value lt = Inr t"
  shows "DisplayPolyline3D f g (PColor c) lw lt
           = Inr \<lparr>geometry = g, user_data = [], color = c, line_width = w, line_type = t\<rparr>"
  using assms
  by (simp add: DisplayPolyline3D_def LineCurveBase2D_init_def SingleColorBase2D_init_def
      DisplayBase2D_init_def color_value_def DisplayBase2D.defs SingleColorBase2D.defs
      LineCurveBase2D.defs)

lemma DisplayCylinder_stored:
  assumes "display_mode_value modes dm = Inr m"
  shows "DisplayCylinder modes g (PColor c) dm
           = Inr \<lparr>geometry = g, user_data = [], color = c, display_mode = m\<rparr>"
  using assms
  by (simp add: DisplayCylinder_def SingleColorModeBase2D_init_def SingleColorBase2D_init_def
      DisplayBase2D_init_def color_value_def DisplayBase2D.defs SingleColorBase2D.defs
      SingleColorModeBase2D.defs)

lemma with_user_data_items:
  assumes "map_of d ''user_data'' = map_of (user_data_items ud) ''user_data''"
    and "user_data obj = []"
  shows "with_user_data d obj = Inr (obj\<lparr>user_data := ud\<rparr>)"
  using assms by (cases "ud = []") (simp_all add: with_user_data_def user_data_items_def)

lemma polyline_from_to_dict:
  fixes x :: "'g LineCurveBase2D"
  assumes geo: "geo_from_dict (geo_to_dict (geometry x)) = Inr g"
    and w: "valid_width (line_width x)" and t: "line_type x \<in> set LINE_TYPES"
  shows "DisplayPolyline3D_from_dict f geo_from_dict (DisplayPolyline3D_to_dict geo_to_dict x)
           = Inr (x\<lparr>geometry := g\<rparr>)"
proof -
  let ?d = "[(''type'', PStr ''DisplayPolyline3D''),
             (''geometry'', geo_to_dict (geometry x)),
             (''color'', color_to_dict (color x)),
             (''line_width'', width_to_dict (line_width x)),
             (''line_type'', PStr (line_type x))] @ user_data_items (user_data x)"
  have tag: "map_of ?d ''type'' = Some (PStr ''DisplayPolyline3D'')"
    and geom: "map_of ?d ''geometry'' = Some (geo_to_dict (geometry x))"
    and col: "map_of ?d ''color'' = Some (color_to_dict (color x))"
    and lw: "map_of ?d ''line_width'' = Some (width_to_dict (line_width x))"
    and lt: "map_of ?d ''line_type'' = Some (PStr (line_type x))"
    and ud: "map_of ?d ''user_data'' = map_of (user_data_items (user_data x)) ''user_data''"
    by simp_all
  have lwa: "line_width_value f (line_width_arg_of ?d) = Inr (line_width x)"
    unfolding line_width_arg_of_def lw option.case by (rule line_width_value_stored [OF w])
  have obj: "DisplayPolyline3D f g (PColor (color x)) (line_width_arg_of ?d) (PStr (line_type x))
      = Inr \<lparr>geometry = g, user_data = [], color = color x, line_width = line_width x,
             line_type = line_type x\<rparr>"
    by (rule DisplayPolyline3D_stored [OF lwa line_type_value_member [OF t]])
  have fin: "with_user_data ?d \<lparr>geometry = g, user_data = [], color = color x,
        line_width = line_width x, line_type = line_type x\<rparr> = Inr (x\<lparr>geometry := g\<rparr>)"
    by (subst with_user_data_items [OF ud]) simp_all
  show ?thesis
    unfolding DisplayPolyline3D_to_dict_def DisplayPolyline3D_from_dict.simps
    by (simp only: tag geom geo col color_arg_of_to_dict lt obj fin
        option.case sum.case if_False not_not not_True_eq_False refl)
qed


lemma cylinder_from_to_dict:
  fixes x :: "'g SingleColorModeBase2D"
  assumes geo: "geo_from_dict (geo_to_dict (geometry x)) = Inr g"
    and d: "distinct (map lower modes)" and m: "display_mode x \<in> set modes"
  shows "DisplayCylinder_from_dict modes geo_from_dict (DisplayCylinder_to_dict geo_to_dict x)
           = Inr (x\<lparr>geometry := g\<rparr>)"
proof -
  let ?d = "[(''type'', PStr ''DisplayCylinder''),
             (''geometry'', geo_to_dict (geometry x)),
             (''color'', color_to_dict (color x)),
             (''display_mode'', PStr (display_mode x))] @ user_data_items (user_data x)"
  have tag: "map_of ?d ''type'' = Some (PStr ''DisplayCylinder'')"
    and geom: "map_of ?d ''geometry'' = Some (geo_to_dict (geometry x))"
    and col: "map_of ?d ''color'' = Some (color_to_dict (color x))"
    and dm: "map_of ?d ''display_mode'' = Some (PStr (display_mode x))"
    and ud: "map_of ?d ''user_data'' = map_of (user_data_items (user_data x)) ''user_data''"
    by simp_all
  have obj: "DisplayCylinder modes g (PColor (color x)) (PStr (display_mode x))
      = Inr \<lparr>geometry = g, user_data = [], color = color x, display_mode = display_mode x\<rparr>"
    by (rule DisplayCylinder_stored [OF display_mode_value_member [OF d m]])
  have fin: "with_user_data ?d \<lparr>geometry = g, user_data = [], color = color x,
        display_mode = display_mode x\<rparr> = Inr (x\<lparr>geometry := g\<rparr>)"
    by (subst with_user_data_items [OF ud]) simp_all
  show ?thesis
    unfolding DisplayCylinder_to_dict_def DisplayCylinder_from_dict.simps
    by (simp only: tag geom geo col color_arg_of_to_dict dm obj fin
        option.case sum.case if_False not_not not_True_eq_False refl)
qed

lemma to_dict_geometry:
  "geo_to_dict g = geo_to_dict (geometry x) \<Longrightarrow>
     DisplayPolyline3D_to_dict geo_to_dict (x\<lparr>geometry := g\<rparr>)
       = DisplayPolyline3D_to_dict geo_to_dict x"
  "geo_to_dict g = geo_to_dict (geometry y) \<Longrightarrow>
     DisplayCylinder_to_dict geo_to_dict (y\<lparr>geometry := g\<rparr>)
       = DisplayCylinder_to_dict geo_to_dict y"
  by (simp_all add: DisplayPolyline3D_to_dict_def DisplayCylinder_to_dict_def)

text \<open>
  C1. For every valid display wrapper \<open>x\<close> (a \<open>DisplayCylinder\<close> or a
  \<open>DisplayPolyline3D\<close> whose attributes are values the setters store, on a geometry that
  the geometry library itself reads back from its dictionary without changing that
  dictionary), \<open>from_dict(x.to_dict())\<close> succeeds and its \<open>to_dict()\<close> equals
  \<open>x.to_dict()\<close>.
\<close>

theorem to_dict_from_dict_round_trip:
  "(geo_from_dict (geo_to_dict (geometry cyl)) = Inr g \<and> geo_to_dict g = geo_to_dict (geometry cyl)
      \<and> distinct (map lower modes) \<and> display_mode cyl \<in> set modes \<longrightarrow>
      (\<exists>cyl'. DisplayCylinder_from_dict modes geo_from_dict (DisplayCylinder_to_dict geo_to_dict cyl)
                 = Inr cyl'
            \<and> DisplayCylinder_to_dict geo_to_dict cyl' = DisplayCylinder_to_dict geo_to_dict cyl))
   \<and> (geo_from_dict (geo_to_dict (geometry pline)) = Inr h
      \<and> geo_to_dict h = geo_to_dict (geometry pline)
      \<and> valid_width (line_width pline) \<and> line_type pline \<in> set LINE_TYPES \<longrightarrow>
      (\<exists>pline'. DisplayPolyline3D_from_dict f geo_from_dict
                   (DisplayPolyline3D_to_dict geo_to_dict pline) = Inr pline'
            \<and> DisplayPolyline3D_to_dict geo_to_dict pline'
                = DisplayPolyline3D_to_dict geo_to_dict pline))"
proof (intro conjI impI)
  assume a: "geo_from_dict (geo_to_dict (geometry cyl)) = Inr g
      \<and> geo_to_dict g = geo_to_dict (geometry cyl)
      \<and> distinct (map lower modes) \<and> display_mode cyl \<in> set modes"
  then have "DisplayCylinder_from_dict modes geo_from_dict (DisplayCylinder_to_dict geo_to_dict cyl)
      = Inr (cyl\<lparr>geometry := g\<rparr>)"
    by (intro cylinder_from_to_dict) simp_all
  moreover have "DisplayCylinder_to_dict geo_to_dict (cyl\<lparr>geometry := g\<rparr>)
      = DisplayCylinder_to_dict geo_to_dict cyl"
    using a by (intro to_dict_geometry) simp
  ultimately show "\<exists>cyl'. DisplayCylinder_from_dict modes geo_from_dict
        (DisplayCylinder_to_dict geo_to_dict cyl) = Inr cyl'
      \<and> DisplayCylinder_to_dict geo_to_dict cyl' = DisplayCylinder_to_dict geo_to_dict cyl"
    by blast
next
  assume a: "geo_from_dict (geo_to_dict (geometry pline)) = Inr h
      \<and> geo_to_dict h = geo_to_dict (geometry pline)
      \<and> valid_width (line_width pline) \<and> line_type pline \<in> set LINE_TYPES"
  then have "DisplayPolyline3D_from_dict f geo_from_dict
      (DisplayPolyline3D_to_dict geo_to_dict pline) = Inr (pline\<lparr>geometry := h\<rparr>)"
    by (intro polyline_from_to_dict) simp_all
  moreover have "DisplayPolyline3D_to_dict geo_to_dict (pline\<lparr>geometry := h\<rparr>)
      = DisplayPolyline3D_to_dict geo_to_dict pline"
    using a by (intro to_dict_geometry) simp
  ultimately show "\<exists>pline'. DisplayPolyline3D_from_dict f geo_from_dict
        (DisplayPolyline3D_to_dict geo_to_dict pline) = Inr pline'
      \<and> DisplayPolyline3D_to_dict geo_to_dict pline'
          = DisplayPolyline3D_to_dict geo_to_dict pline"
    by blast
qed

lemma point_dict_round_trip: "point_from_dict (point_to_dict p) = Inr p"
  by (simp add: point_to_dict_def)

lemma example_modes_distinct: "distinct (map lower example_modes)"
  unfolding example_modes_def lower_examples(3) by simp

theorem to_dict_from_dict_round_trip_witness:
  "(\<exists>cyl'. DisplayCylinder_from_dict example_modes point_from_dict
              (DisplayCylinder_to_dict point_to_dict example_disc) = Inr cyl'
          \<and> DisplayCylinder_to_dict point_to_dict cyl'
              = DisplayCylinder_to_dict point_to_dict example_disc)
   \<and> (\<exists>pline'. DisplayPolyline3D_from_dict (\<lambda>s. None) point_from_dict
              (DisplayPolyline3D_to_dict point_to_dict example_point) = Inr pline'
          \<and> DisplayPolyline3D_to_dict point_to_dict pline'
              = DisplayPolyline3D_to_dict point_to_dict example_point)"
proof -
  have c: "point_from_dict (point_to_dict (geometry example_disc)) = Inr (geometry example_disc)
      \<and> point_to_dict (geometry example_disc) = point_to_dict (geometry example_disc)
      \<and> distinct (map lower example_modes) \<and> display_mode example_disc \<in> set example_modes"
    by (simp add: point_dict_round_trip example_modes_distinct)
      (simp add: example_disc_def example_modes_def)
  have p: "point_from_dict (point_to_dict (geometry example_point)) = Inr (geometry example_point)
      \<and> point_to_dict (geometry example_point) = point_to_dict (geometry example_point)
      \<and> valid_width (line_width example_point) \<and> line_type example_point \<in> set LINE_TYPES"
    by (simp add: point_dict_round_trip) (simp add: example_point_def LINE_TYPES_def)
  note t = to_dict_from_dict_round_trip [where geo_from_dict = point_from_dict
      and geo_to_dict = point_to_dict and cyl = example_disc and g = "geometry example_disc"
      and modes = example_modes and pline = example_point and h = "geometry example_point"
      and f = "\<lambda>s. None"]
  show ?thesis
    using mp [OF t [THEN conjunct1] c] mp [OF t [THEN conjunct2] p] by (rule conjI)
qed

subsection \<open>The square path\<close>

lemma square_segments:
  "polyline_segments (Polyline3D [Point3D_xy 0 0, Point3D_xy 2 0, Point3D_xy 2 2, Point3D_xy 0 2])
     = [LineSegment3D (Point3D_xy 0 0) (Point3D_xy 2 0),
        LineSegment3D (Point3D_xy 2 0) (Point3D_xy 2 2),
        LineSegment3D (Point3D_xy 2 2) (Point3D_xy 0 2)]"
  by (simp add: polyline_segments_def)

lemma square_segment_lengths:
  "segment_length (LineSegment3D (Point3D_xy 0 0) (Point3D_xy 2 0)) = 2"
  "segment_length (LineSegment3D (Point3D_xy 2 0) (Point3D_xy 2 2)) = 2"
  "segment_length (LineSegment3D (Point3D_xy 2 2) (Point3D_xy 0 2)) = 2"
  by (simp_all add: segment_length_def Point3D_xy_def)

text \<open>
  C7. The polyline wrapper constructed from the four points (0,0), (2,0), (2,2), (0,2),
  a square path of side 2, with any colour and the default line width and line type, has
  length 6 and exactly 3 segments, each of length 2; its \<open>p1\<close> is the first input point
  and its \<open>p2\<close> the last.
\<close>

theorem square_polyline_properties:
  "\<exists>pline. DisplayPolyline3D f
        (Polyline3D [Point3D_xy 0 0, Point3D_xy 2 0, Point3D_xy 2 2, Point3D_xy 0 2])
        (PColor c) PDefault (PStr ''Continuous'') = Inr pline
     \<and> DisplayPolyline3D_length pline = 6
     \<and> length (DisplayPolyline3D_segments pline) = 3
     \<and> map segment_length (DisplayPolyline3D_segments pline) = [2, 2, 2]
     \<and> DisplayPolyline3D_p1 pline = Inr (Point3D_xy 0 0)
     \<and> DisplayPolyline3D_p2 pline = Inr (Point3D_xy 0 2)"
proof -
  let ?sq = "Polyline3D [Point3D_xy 0 0, Point3D_xy 2 0, Point3D_xy 2 2, Point3D_xy 0 2]"
  let ?pline = "\<lparr>geometry = ?sq, user_data = [], color = c, line_width = Default,
      line_type = ''Continuous''\<rparr>"
  have w: "line_width_value f PDefault = Inr Default"
    by (simp add: line_width_value_def)
  have t: "line_type_value (PStr ''Continuous'') = Inr ''Continuous''"
    by (rule line_type_value_member) (simp add: LINE_TYPES_def)
  have built: "DisplayPolyline3D f ?sq (PColor c) PDefault (PStr ''Continuous'') = Inr ?pline"
    by (rule DisplayPolyline3D_stored [OF w t])
  have len: "DisplayPolyline3D_length ?pline = 6"
    by (simp add: DisplayPolyline3D_length_def polyline_length_def square_segments
        square_segment_lengths)
  have segs: "length (DisplayPolyline3D_segments ?pline) = 3"
    "map segment_length (DisplayPolyline3D_segments ?pline) = [2, 2, 2]"
    by (simp_all add: DisplayPolyline3D_segments_def square_segments square_segment_lengths)
  have ends: "DisplayPolyline3D_p1 ?pline = Inr (Point3D_xy 0 0)"
    "DisplayPolyline3D_p2 ?pline = Inr (Point3D_xy 0 2)"
    by (simp_all add: DisplayPolyline3D_p1_def DisplayPolyline3D_p2_def polyline_p1_def
        polyline_p2_def)
  show ?thesis
    by (rule exI [of _ ?pline]) (simp only: built len segs ends simp_thms)
qed

theorem square_polyline_properties_witness:
  "\<exists>pline. DisplayPolyline3D (\<lambda>s. None)
        (Polyline3D [Point3D_xy 0 0, Point3D_xy 2 0, Point3D_xy 2 2, Point3D_xy 0 2])
        (PColor (Color_rgb 100 100 100)) PDefault (PStr ''Continuous'') = Inr pline
     \<and> DisplayPolyline3D_length pline = 6
     \<and> length (DisplayPolyline3D_segments pline) = 3
     \<and> map segment_length (DisplayPolyline3D_segments pline) = [2, 2, 2]
     \<and> DisplayPolyline3D_p1 pline = Inr (Point3D_xy 0 0)
     \<and> DisplayPolyline3D_p2 pline = Inr (Point3D_xy 0 2)"
  by (rule square_polyline_properties)

end
